theory Spec2Isabelle
  imports Complex_Main
begin

section \<open>The epoch-based learning-rate schedule of \<open>train.py\<close>\<close>

text \<open>
  The callback \<open>EpochBasedLearningRateSchedule\<close> of \<open>train.py\<close> reads the optimizer's
  learning rate at the start of every epoch, resolves the rate scheduled for the epoch
  with the nested helper \<open>_lr_schedule\<close>, writes it back and prints a line.

  Epochs are Python integers (\<open>int\<close>). A learning rate is only ever passed through by the
  helper, never compared or computed with, so the helper is polymorphic in the type \<open>'r\<close> of
  rates; the concrete schedule of the script is stated over \<open>real\<close>. What the framework and
  Python do to floating-point numbers around the helper (the conversion of a backend value to
  a Python \<open>float\<close>, the cast of \<open>set_value\<close> to the variable's dtype, the rendering by
  \<open>%6.6f\<close>) is not code of \<open>train.py\<close>; the callback takes these operations as parameters.
\<close>

subsection \<open>Python errors and sequence indexing\<close>

datatype py_error = IndexError | ValueError | AttributeError

text \<open>\<open>xs[i]\<close>: a negative index counts from the end, an index out of range raises.\<close>

definition py_index :: "'a list \<Rightarrow> int \<Rightarrow> py_error + 'a" where
  "py_index xs i =
     (if 0 \<le> i
      then (if i < int (length xs) then Inr (xs ! nat i) else Inl IndexError)
      else (if - int (length xs) \<le> i then Inr (xs ! nat (int (length xs) + i))
            else Inl IndexError))"

subsection \<open>The helper \<open>_lr_schedule\<close>\<close>

text \<open>
  The loop \<open>for i in range(len(schedule))\<close>, over the indices still to visit: the first
  index whose breakpoint has the epoch returns that breakpoint's rate; when the indices are
  used up the function falls through to \<open>return lr\<close>.
\<close>

fun lr_loop :: "int \<Rightarrow> 'r \<Rightarrow> (int \<times> 'r) list \<Rightarrow> nat list \<Rightarrow> py_error + 'r" where
  "lr_loop epoch lr sched [] = Inr lr"
| "lr_loop epoch lr sched (i # rest) =
     (case py_index sched (int i) of
        Inl err \<Rightarrow> Inl err
      | Inr bp \<Rightarrow> if epoch = fst bp then Inr (snd bp) else lr_loop epoch lr sched rest)"

text \<open>
  \<open>_lr_schedule(epoch, lr, schedule)\<close>. The guard is Python's short-circuit \<open>or\<close>:
  \<open>schedule[-1]\<close> is read only when the first comparison is false.
\<close>

definition lr_schedule :: "int \<Rightarrow> 'r \<Rightarrow> (int \<times> 'r) list \<Rightarrow> py_error + 'r" where
  "lr_schedule epoch lr sched =
     (case py_index sched 0 of
        Inl err \<Rightarrow> Inl err
      | Inr first \<Rightarrow>
          if epoch < fst first then Inr lr
          else (case py_index sched (- 1) of
                  Inl err \<Rightarrow> Inl err
                | Inr final \<Rightarrow>
                    if epoch > fst final then Inr lr
                    else lr_loop epoch lr sched [0..<length sched]))"

text \<open>The schedule of the training script (lines 144 to 146).\<close>

definition schedule :: "(int \<times> real) list" where
  "schedule = [(1, 0.001), (30, 0.0001), (50, 0.00001)]"

subsection \<open>Formatting the printed line\<close>

text \<open>The decimal digits of a natural number, most significant first.\<close>

fun digits :: "nat \<Rightarrow> string" where
  "digits n =
     (if n < 10 then [''0123456789'' ! n]
      else digits (n div 10) @ [''0123456789'' ! (n mod 10)])"

declare digits.simps [simp del]

text \<open>
  Python's \<open>'%05d' % n\<close>: the sign if negative, then the digits, padded with zeros after the
  sign up to a width of five characters; a longer number is printed in full.
\<close>

definition fmt_05d :: "int \<Rightarrow> string" where
  "fmt_05d n =
     (let sign = (if n < 0 then ''-'' else '''');
          ds = digits (nat \<bar>n\<bar>)
      in sign @ replicate (5 - (length sign + length ds)) CHR ''0'' @ ds)"

text \<open>
  The floating-point operations the callback relies on, with \<open>'v\<close> the values a backend
  variable holds and \<open>'r\<close> Python's \<open>float\<close>: \<open>float(x)\<close> of a value read with \<open>get_value\<close>,
  the cast that \<open>set_value\<close> applies to the value it stores, and \<open>'%6.6f' % x\<close>.
\<close>

record ('v, 'r) floating_point =
  float_of :: "'v \<Rightarrow> 'r"
  dtype_of :: "'r \<Rightarrow> 'v"
  fmt_6f :: "'r \<Rightarrow> string"

text \<open>
  The text \<open>"\nEpoch %05d: Learning rate is %6.6f." % (epoch, scheduled_lr)\<close>.
\<close>

definition epoch_message :: "('v, 'r) floating_point \<Rightarrow> int \<Rightarrow> 'r \<Rightarrow> string" where
  "epoch_message fp epoch scheduled_lr =
     ''\<newline>Epoch '' @ fmt_05d epoch @ '': Learning rate is '' @ fmt_6f fp scheduled_lr @ ''.''"

subsection \<open>The callback \<open>on_epoch_begin\<close>\<close>

text \<open>
  What the callback can see and change: its own schedule, the attributes of
  \<open>self.model.optimizer\<close> (each bound to a backend variable), the values of the backend
  variables, the calls made to \<open>get_value\<close> and \<open>set_value\<close> so far, and standard output.
\<close>

datatype 'r access = GetValue nat | SetValue nat 'r

record ('v, 'r) run_state =
  self_schedule :: "(int \<times> 'r) list"
  optimizer :: "string \<rightharpoonup> nat"
  variables :: "nat \<Rightarrow> 'v"
  accesses :: "'r access list"
  stdout :: string

definition get_value :: "nat \<Rightarrow> ('v, 'r) run_state \<Rightarrow> 'v \<times> ('v, 'r) run_state" where
  "get_value a s = (variables s a, s\<lparr>accesses := accesses s @ [GetValue a]\<rparr>)"

text \<open>\<open>set_value(x, value)\<close> stores the value cast to the dtype of the variable.\<close>

definition set_value ::
  "('v, 'r) floating_point \<Rightarrow> nat \<Rightarrow> 'r \<Rightarrow> ('v, 'r) run_state \<Rightarrow> ('v, 'r) run_state" where
  "set_value fp b v s =
     s\<lparr>variables := (variables s)(b := dtype_of fp v),
       accesses := accesses s @ [SetValue b v]\<rparr>"

definition py_print :: "string \<Rightarrow> ('v, 'r) run_state \<Rightarrow> ('v, 'r) run_state" where
  "py_print line s = s\<lparr>stdout := stdout s @ line @ ''\<newline>''\<rparr>"

text \<open>
  \<open>on_epoch_begin(self, epoch)\<close> returns the exception raised, if any, and the state it
  leaves. Reading an attribute the optimizer does not have raises \<open>AttributeError\<close>.
\<close>

definition on_epoch_begin ::
  "('v, 'r) floating_point \<Rightarrow> int \<Rightarrow> ('v, 'r) run_state
     \<Rightarrow> py_error option \<times> ('v, 'r) run_state" where
  "on_epoch_begin fp epoch s =
     (if optimizer s ''lr'' = None then (Some ValueError, s)
      else case optimizer s ''learning_rate'' of
        None \<Rightarrow> (Some AttributeError, s)
      | Some a \<Rightarrow>
          (case get_value a s of (x, s1) \<Rightarrow>
             (let lr = float_of fp x in
              case lr_schedule epoch lr (self_schedule s1) of
                Inl err \<Rightarrow> (Some err, s1)
              | Inr scheduled_lr \<Rightarrow>
                  (case optimizer s1 ''lr'' of
                     None \<Rightarrow> (Some AttributeError, s1)
                   | Some b \<Rightarrow>
                       (None, py_print (epoch_message fp epoch scheduled_lr)
                                (set_value fp b scheduled_lr s1))))))"

subsection \<open>Index facts\<close>

lemma py_index_nat: "i < length xs \<Longrightarrow> py_index xs (int i) = Inr (xs ! i)"
  by (simp add: py_index_def)

lemma py_index_first: "xs \<noteq> [] \<Longrightarrow> py_index xs 0 = Inr (hd xs)"
  by (cases xs) (simp_all add: py_index_def)

lemma py_index_final: "xs \<noteq> [] \<Longrightarrow> py_index xs (- 1) = Inr (last xs)"
  by (cases xs rule: rev_cases) (simp_all add: py_index_def)

lemma py_index_empty: "py_index [] i = Inl IndexError"
  by (simp add: py_index_def)

subsection \<open>The loop as a search for the first match\<close>

lemma lr_loop_find:
  "\<forall>i \<in> set idxs. i < length sched \<Longrightarrow>
   lr_loop epoch lr sched idxs =
     Inr (case List.find (\<lambda>i. fst (sched ! i) = epoch) idxs of
            None \<Rightarrow> lr
          | Some i \<Rightarrow> snd (sched ! i))"
proof (induction idxs)
  case Nil
  show ?case by simp
next
  case (Cons i rest)
  then have "i < length sched" by simp
  then have "py_index sched (int i) = Inr (sched ! i)" by (rule py_index_nat)
  with Cons show ?case by auto
qed

lemma lr_loop_range:
  "lr_loop epoch lr sched [0..<length sched] =
     Inr (case List.find (\<lambda>i. fst (sched ! i) = epoch) [0..<length sched] of
            None \<Rightarrow> lr
          | Some i \<Rightarrow> snd (sched ! i))"
  by (rule lr_loop_find) simp

lemma lr_schedule_unfold:
  assumes "sched \<noteq> []"
  shows "lr_schedule epoch lr sched =
     (if epoch < fst (hd sched) \<or> epoch > fst (last sched) then Inr lr
      else Inr (case List.find (\<lambda>i. fst (sched ! i) = epoch) [0..<length sched] of
                  None \<Rightarrow> lr
                | Some i \<Rightarrow> snd (sched ! i)))"
  using assms
  by (simp add: lr_schedule_def py_index_first py_index_final lr_loop_range)

lemma find_range_none:
  "epoch \<notin> fst ` set sched \<Longrightarrow>
   List.find (\<lambda>i. fst (sched ! i) = epoch) [0..<length sched] = None"
  by (auto simp: find_None_iff)

lemma find_range_first:
  assumes "i < length sched" and "fst (sched ! i) = epoch"
    and "\<And>j. j < i \<Longrightarrow> fst (sched ! j) \<noteq> epoch"
  shows "List.find (\<lambda>i. fst (sched ! i) = epoch) [0..<length sched] = Some i"
proof -
  have "\<exists>k < length [0..<length sched].
          fst (sched ! ([0..<length sched] ! k)) = epoch \<and> i = [0..<length sched] ! k \<and>
          (\<forall>j < k. \<not> fst (sched ! ([0..<length sched] ! j)) = epoch)"
    using assms by (intro exI [of _ i]) auto
  then show ?thesis by (simp only: find_Some_iff)
qed

lemma lr_schedule_no_match:
  assumes "sched \<noteq> []" and "epoch \<notin> fst ` set sched"
  shows "lr_schedule epoch lr sched = Inr lr"
  using assms by (simp add: lr_schedule_unfold find_range_none)

lemma lr_schedule_first_match:
  assumes "i < length sched" and "fst (sched ! i) = epoch"
    and "\<And>j. j < i \<Longrightarrow> fst (sched ! j) \<noteq> epoch"
    and "fst (hd sched) \<le> epoch" and "epoch \<le> fst (last sched)"
  shows "lr_schedule epoch lr sched = Inr (snd (sched ! i))"
proof -
  from assms(1) have ne: "sched \<noteq> []" by auto
  have "List.find (\<lambda>i. fst (sched ! i) = epoch) [0..<length sched] = Some i"
    using assms(1-3) by (rule find_range_first)
  with ne assms(4,5) show ?thesis
    by (simp add: lr_schedule_unfold)
qed

lemma lr_schedule_empty: "lr_schedule epoch lr [] = Inl IndexError"
  by (simp add: lr_schedule_def py_index_empty)

lemma sorted_epochs_bounds:
  assumes "sorted (map fst sched)" and "i < length sched"
  shows "fst (hd sched) \<le> fst (sched ! i)" and "fst (sched ! i) \<le> fst (last sched)"
proof -
  from assms(2) have ne: "sched \<noteq> []" by auto
  have "map fst sched ! 0 \<le> map fst sched ! i"
    using assms by (intro sorted_nth_mono) simp_all
  with ne assms(2) show "fst (hd sched) \<le> fst (sched ! i)"
    by (simp add: hd_conv_nth)
  have "map fst sched ! i \<le> map fst sched ! (length sched - 1)"
    using assms by (intro sorted_nth_mono) simp_all
  with ne assms(2) show "fst (sched ! i) \<le> fst (last sched)"
    by (simp add: last_conv_nth)
qed

subsection \<open>Facts about the printed line and the callback\<close>

lemma digits_length: "0 < k \<Longrightarrow> n < 10 ^ k \<Longrightarrow> length (digits n) \<le> k"
proof (induction n arbitrary: k rule: digits.induct)
  case (1 n)
  show ?case
  proof (cases "n < 10")
    case True
    with "1.prems" show ?thesis by (simp add: digits.simps)
  next
    case False
    with "1.prems" obtain k' where k: "k = Suc k'" and k': "0 < k'"
      by (cases k; cases "k - 1") auto
    with "1.prems" have "n div 10 < 10 ^ k'" by (simp add: less_mult_imp_div_less mult.commute)
    with False k' have "length (digits (n div 10)) \<le> k'" by (intro "1.IH") simp_all
    with False k show ?thesis by (simp add: digits.simps [of n])
  qed
qed

lemma fmt_05d_width:
  assumes "0 \<le> n" and "n < 100000"
  shows "length (fmt_05d n) = 5"
    and "fmt_05d n = replicate (5 - length (digits (nat n))) CHR ''0'' @ digits (nat n)"
proof -
  from assms have "nat n < 10 ^ 5" by simp
  then have "length (digits (nat n)) \<le> 5" by (intro digits_length) simp_all
  with assms show "length (fmt_05d n) = 5" by (simp add: fmt_05d_def Let_def)
  from assms show "fmt_05d n = replicate (5 - length (digits (nat n))) CHR ''0'' @ digits (nat n)"
    by (simp add: fmt_05d_def Let_def)
qed

lemma lr_schedule_error: "lr_schedule epoch lr sched = Inl err \<Longrightarrow> err = IndexError"
  by (cases "sched = []") (simp_all add: lr_schedule_empty lr_schedule_unfold split: if_splits)

lemma lr_schedule_returns: "sched \<noteq> [] \<Longrightarrow> \<exists>r. lr_schedule epoch lr sched = Inr r"
  by (simp add: lr_schedule_unfold)

lemma on_epoch_begin_returns:
  assumes "optimizer s ''lr'' = Some b" and "optimizer s ''learning_rate'' = Some a"
    and "lr_schedule epoch (float_of fp (variables s a)) (self_schedule s) = Inr r"
  shows "on_epoch_begin fp epoch s =
           (None, s\<lparr>variables := (variables s)(b := dtype_of fp r),
                    accesses := accesses s @ [GetValue a, SetValue b r],
                    stdout := stdout s @ epoch_message fp epoch r @ ''\<newline>''\<rparr>)"
  using assms
  by (simp add: on_epoch_begin_def get_value_def set_value_def py_print_def)

section \<open>Properties of the schedule resolution\<close>

text \<open>
  C1. In a schedule sorted ascending by epoch with unique epochs, the rate resolved at the
  epoch of a breakpoint \<open>(e, r)\<close> of the schedule is exactly \<open>r\<close>, whatever the current rate.
\<close>

theorem lr_schedule_breakpoint:
  assumes "sorted (map fst sched)" and "distinct (map fst sched)"
    and "(e, r) \<in> set sched"
  shows "lr_schedule e lr sched = Inr r"
proof -
  from assms(3) obtain i where i: "i < length sched" and at: "sched ! i = (e, r)"
    by (auto simp: in_set_conv_nth)
  have earlier: "fst (sched ! j) \<noteq> e" if "j < i" for j
  proof
    assume "fst (sched ! j) = e"
    with at i that have "map fst sched ! j = map fst sched ! i" by simp
    moreover from i that have "j < length (map fst sched)" and "i < length (map fst sched)"
      by simp_all
    ultimately have "j = i" using assms(2) by (simp only: nth_eq_iff_index_eq)
    with that show False by simp
  qed
  from sorted_epochs_bounds [OF assms(1) i] at
  have "fst (hd sched) \<le> e" and "e \<le> fst (last sched)" by simp_all
  with i at earlier have "lr_schedule e lr sched = Inr (snd (sched ! i))"
    by (intro lr_schedule_first_match) simp_all
  with at show ?thesis by simp
qed

theorem lr_schedule_breakpoint_witness:
  "lr_schedule 30 (0.5 :: real) [(1, 0.001), (30, 0.0001), (50, 0.00001)] = Inr 0.0001"
  using lr_schedule_breakpoint
    [of "[(1, 0.001), (30, 0.0001), (50, 0.00001 :: real)]" 30 "0.0001" "0.5"]
  by simp

text \<open>
  C2. In a sorted schedule, at an epoch strictly between the epochs of two consecutive
  breakpoints the current rate is returned unchanged: neither a rate in between nor the
  rate of the breakpoint before.
\<close>

theorem lr_schedule_between:
  assumes "sorted (map fst sched)" and "Suc i < length sched"
    and "fst (sched ! i) < e" and "e < fst (sched ! Suc i)"
  shows "lr_schedule e lr sched = Inr lr"
proof -
  from assms(2) have ne: "sched \<noteq> []" by auto
  have "e \<notin> fst ` set sched"
  proof
    assume "e \<in> fst ` set sched"
    then obtain k where k: "k < length sched" and ek: "fst (sched ! k) = e"
      by (auto simp: in_set_conv_nth)
    show False
    proof (cases "k \<le> i")
      case True
      with assms(1,2) have "map fst sched ! k \<le> map fst sched ! i"
        by (intro sorted_nth_mono) simp_all
      with k ek assms(2,3) show False by simp
    next
      case False
      with assms(1) k have "map fst sched ! Suc i \<le> map fst sched ! k"
        by (intro sorted_nth_mono) simp_all
      with k ek assms(2,4) show False by simp
    qed
  qed
  with ne show ?thesis by (rule lr_schedule_no_match)
qed

theorem lr_schedule_between_witness:
  "lr_schedule 15 (0.5 :: real) [(1, 0.001), (30, 0.0001), (50, 0.00001)] = Inr 0.5"
  using lr_schedule_between
    [of "[(1, 0.001), (30, 0.0001), (50, 0.00001 :: real)]" 0 15 "0.5"]
  by simp

text \<open>
  C3. For a non-empty schedule, an epoch before the first breakpoint's epoch or after the
  last breakpoint's epoch leaves the current rate unchanged. (The code needs no sortedness
  for this.)
\<close>

theorem lr_schedule_outside:
  assumes "sched \<noteq> []"
    and "e < fst (hd sched) \<or> e > fst (last sched)"
  shows "lr_schedule e lr sched = Inr lr"
  using assms by (auto simp add: lr_schedule_unfold)

theorem lr_schedule_outside_witness:
  "lr_schedule 0 (0.5 :: real) [(1, 0.001), (30, 0.0001), (50, 0.00001)] = Inr 0.5
   \<and> lr_schedule 51 (0.5 :: real) [(1, 0.001), (30, 0.0001), (50, 0.00001)] = Inr 0.5"
  using lr_schedule_outside [of "[(1, 0.001), (30, 0.0001), (50, 0.00001 :: real)]" 0 "0.5"]
    lr_schedule_outside [of "[(1, 0.001), (30, 0.0001), (50, 0.00001 :: real)]" 51 "0.5"]
  by simp

text \<open>
  C4. The six end-to-end scenarios on the schedule of the training script.
\<close>

theorem lr_schedule_scenarios:
  "lr_schedule 0 0.0005 schedule = Inr 0.0005
   \<and> lr_schedule 1 0.0005 schedule = Inr 0.001
   \<and> lr_schedule 15 0.001 schedule = Inr 0.001
   \<and> lr_schedule 30 0.001 schedule = Inr 0.0001
   \<and> lr_schedule 49 0.0001 schedule = Inr 0.0001
   \<and> lr_schedule 51 0.00001 schedule = Inr 0.00001"
  by (simp add: schedule_def lr_schedule_def py_index_def upt_rec)

text \<open>
  C6. On a non-empty schedule, sorted or not, and at any epoch, the resolution raises nothing
  and returns a rate: the reads of \<open>schedule[0]\<close>, of \<open>schedule[-1]\<close> and of \<open>schedule[i]\<close>
  at every index of the loop are in range. (On the empty schedule the first read raises
  \<open>IndexError\<close>, see \<open>lr_schedule_empty\<close>.)
\<close>

theorem lr_schedule_total:
  assumes "sched \<noteq> []"
  shows "(\<exists>r. lr_schedule epoch lr sched = Inr r)
     \<and> py_index sched 0 = Inr (hd sched)
     \<and> py_index sched (- 1) = Inr (last sched)
     \<and> (\<forall>i \<in> set [0..<length sched]. py_index sched (int i) = Inr (sched ! i))"
  using assms
  by (simp add: lr_schedule_returns py_index_first py_index_final py_index_nat)

theorem lr_schedule_total_witness:
  "(\<exists>r. lr_schedule 7 (0.5 :: real) [(9, 0.1), (3, 0.2), (9, 0.3)] = Inr r)
   \<and> py_index [(9 :: int, 0.1 :: real), (3, 0.2), (9, 0.3)] (- 1) = Inr (9, 0.3)"
  using lr_schedule_total [of "[(9, 0.1), (3, 0.2), (9, 0.3 :: real)]" 7 "0.5"]
  by simp

text \<open>
  C9. When the epoch lies between the first and the last breakpoint's epoch (inclusive) and
  some breakpoint has it, the resolved rate is the rate of the breakpoint of lowest index
  with that epoch, also when the schedule repeats epochs.
\<close>

theorem lr_schedule_earliest:
  assumes "fst (hd sched) \<le> epoch" and "epoch \<le> fst (last sched)"
    and "epoch \<in> fst ` set sched"
  shows "\<exists>i < length sched. fst (sched ! i) = epoch
            \<and> (\<forall>j < i. fst (sched ! j) \<noteq> epoch)
            \<and> lr_schedule epoch lr sched = Inr (snd (sched ! i))"
proof -
  define P where "P = (\<lambda>i. i < length sched \<and> fst (sched ! i) = epoch)"
  define i where "i = (LEAST i. P i)"
  from assms(3) obtain k where "k < length sched" and "fst (sched ! k) = epoch"
    by (fastforce simp: in_set_conv_nth)
  then have "\<exists>k. P k" unfolding P_def by blast
  then have "P i" unfolding i_def by (auto intro: LeastI)
  have least: "fst (sched ! j) \<noteq> epoch" if "j < i" for j
  proof
    assume "fst (sched ! j) = epoch"
    with that \<open>P i\<close> have "P j" by (simp add: P_def)
    then have "i \<le> j" unfolding i_def by (rule Least_le)
    with that show False by simp
  qed
  from \<open>P i\<close> have i: "i < length sched" and at: "fst (sched ! i) = epoch"
    by (simp_all add: P_def)
  from i at least assms(1,2) have "lr_schedule epoch lr sched = Inr (snd (sched ! i))"
    by (rule lr_schedule_first_match)
  with i at least show ?thesis by blast
qed

theorem lr_schedule_earliest_witness:
  "\<exists>i < length [(1 :: int, 10 :: nat), (5, 20), (5, 30), (9, 40)].
      fst ([(1 :: int, 10 :: nat), (5, 20), (5, 30), (9, 40)] ! i) = 5
      \<and> (\<forall>j < i. fst ([(1 :: int, 10 :: nat), (5, 20), (5, 30), (9, 40)] ! j) \<noteq> 5)
      \<and> lr_schedule 5 77 [(1 :: int, 10 :: nat), (5, 20), (5, 30), (9, 40)]
          = Inr (snd ([(1 :: int, 10 :: nat), (5, 20), (5, 30), (9, 40)] ! i))"
  using lr_schedule_earliest [of "[(1 :: int, 10 :: nat), (5, 20), (5, 30), (9, 40)]" 5 77]
  by simp

text \<open>
  C10. On a non-empty schedule the resolved rate is the current rate or one of the rates
  listed in the schedule; no other value is ever produced.
\<close>

theorem lr_schedule_range:
  assumes "sched \<noteq> []"
  shows "\<exists>r. lr_schedule epoch lr sched = Inr r \<and> (r = lr \<or> r \<in> snd ` set sched)"
proof (cases "List.find (\<lambda>i. fst (sched ! i) = epoch) [0..<length sched]")
  case None
  with assms show ?thesis by (simp add: lr_schedule_unfold)
next
  case (Some i)
  then have "i < length sched" by (auto simp: find_Some_iff)
  then have "snd (sched ! i) \<in> snd ` set sched" by simp
  with assms Some show ?thesis by (simp add: lr_schedule_unfold)
qed

theorem lr_schedule_range_witness:
  "\<exists>r. lr_schedule 3 (0.5 :: real) [(9, 0.1), (3, 0.2), (9, 0.3)] = Inr r
       \<and> (r = 0.5 \<or> r \<in> snd ` set [(9, 0.1), (3, 0.2), (9, 0.3)])"
  using lr_schedule_range [of "[(9, 0.1), (3, 0.2), (9, 0.3 :: real)]" 3 "0.5"]
  by simp

section \<open>Properties of the callback\<close>

text \<open>
  C5. When the optimizer has no attribute \<open>lr\<close>, \<open>on_epoch_begin\<close> raises \<open>ValueError\<close> and
  leaves the state as it found it: no variable was read or written, nothing was printed,
  and the schedule was not consulted (an empty schedule, on which the resolution would
  raise \<open>IndexError\<close>, changes nothing). When the attribute is there, \<open>ValueError\<close> is not
  raised.
\<close>

theorem on_epoch_begin_requires_lr:
  "(optimizer s ''lr'' = None \<longrightarrow> on_epoch_begin fp epoch s = (Some ValueError, s))
   \<and> (optimizer s ''lr'' \<noteq> None \<longrightarrow> fst (on_epoch_begin fp epoch s) \<noteq> Some ValueError)"
proof (intro conjI impI)
  assume "optimizer s ''lr'' = None"
  then show "on_epoch_begin fp epoch s = (Some ValueError, s)"
    by (simp add: on_epoch_begin_def)
next
  assume present: "optimizer s ''lr'' \<noteq> None"
  show "fst (on_epoch_begin fp epoch s) \<noteq> Some ValueError"
  proof (cases "optimizer s ''learning_rate''")
    case None
    with present show ?thesis by (simp add: on_epoch_begin_def)
  next
    case (Some a)
    show ?thesis
    proof (cases "lr_schedule epoch (float_of fp (variables s a)) (self_schedule s)")
      case (Inl err)
      then have "err = IndexError" by (rule lr_schedule_error)
      with present Some Inl show ?thesis
        by (simp add: on_epoch_begin_def get_value_def)
    next
      case (Inr r)
      from present obtain b where "optimizer s ''lr'' = Some b" by auto
      from on_epoch_begin_returns [OF this Some Inr] show ?thesis by simp
    qed
  qed
qed

theorem on_epoch_begin_requires_lr_witness:
  "on_epoch_begin
      \<lparr>float_of = (\<lambda>x :: real. x), dtype_of = (\<lambda>x :: real. x), fmt_6f = (\<lambda>x. ''0.001000'')\<rparr> 1
      \<lparr>self_schedule = [], optimizer = [''learning_rate'' \<mapsto> 0],
       variables = (\<lambda>a. 0.0001), accesses = [], stdout = ''''\<rparr>
     = (Some ValueError,
        \<lparr>self_schedule = [], optimizer = [''learning_rate'' \<mapsto> 0],
         variables = (\<lambda>a. 0.0001), accesses = [], stdout = ''''\<rparr>)
   \<and> fst (on_epoch_begin
      \<lparr>float_of = (\<lambda>x :: real. x), dtype_of = (\<lambda>x :: real. x), fmt_6f = (\<lambda>x. ''0.001000'')\<rparr> 1
      \<lparr>self_schedule = [], optimizer = [''lr'' \<mapsto> 0, ''learning_rate'' \<mapsto> 0],
       variables = (\<lambda>a. 0.0001), accesses = [], stdout = ''''\<rparr>) \<noteq> Some ValueError"
  using on_epoch_begin_requires_lr [of
      "\<lparr>self_schedule = [], optimizer = [''learning_rate'' \<mapsto> 0],
        variables = (\<lambda>a. 0.0001 :: real), accesses = [], stdout = ''''\<rparr>"
      "\<lparr>float_of = (\<lambda>x :: real. x), dtype_of = (\<lambda>x :: real. x),
        fmt_6f = (\<lambda>x. ''0.001000'')\<rparr>" 1]
    on_epoch_begin_requires_lr [of
      "\<lparr>self_schedule = [], optimizer = [''lr'' \<mapsto> 0, ''learning_rate'' \<mapsto> 0],
        variables = (\<lambda>a. 0.0001 :: real), accesses = [], stdout = ''''\<rparr>"
      "\<lparr>float_of = (\<lambda>x :: real. x), dtype_of = (\<lambda>x :: real. x),
        fmt_6f = (\<lambda>x. ''0.001000'')\<rparr>" 1]
  by simp

end
